theory Spec2Isabelle
  imports Main "HOL-Library.List_Lexorder"
begin

section \<open>Python values used by lunr's pipeline\<close>

text \<open>
  A Python \<open>str\<close> is a sequence of Unicode code points; comparison of two strings is
  lexicographic on the code points, which is the order \<open>List_Lexorder\<close> gives to lists.
  \<open>u\<close> turns an ASCII literal of the source into such a string.
\<close>

type_synonym pystr = "nat list"

definition u :: "string \<Rightarrow> pystr" where
  "u s = map of_char s"

text \<open>The exceptions the two modules can raise, with their argument.\<close>

datatype error =
    AttributeError pystr
  | KeyError pystr
  | Exception pystr

text \<open>
  \<open>template.format(arg)\<close> for a template with at most one replacement field \<open>{}\<close>
  (code points 123, 125), which is all the source uses. A template without a field is
  returned as it is: the argument is ignored.
\<close>

fun format :: "pystr \<Rightarrow> pystr \<Rightarrow> pystr" where
  "format (c # d # cs) arg =
     (if c = 123 \<and> d = 125 then arg @ cs else c # format (d # cs) arg)"
| "format cs arg = cs"

text \<open>\<open>sep.join(xs)\<close>.\<close>

fun join :: "pystr \<Rightarrow> pystr list \<Rightarrow> pystr" where
  "join sep [] = []"
| "join sep [x] = x"
| "join sep (x # y # ys) = x @ sep @ join sep (y # ys)"

text \<open>\<open>s.split(" ")\<close>: split at every single space (code point 32), keeping empty pieces.\<close>

fun split_acc :: "pystr \<Rightarrow> pystr \<Rightarrow> pystr list" where
  "split_acc cur [] = [cur]"
| "split_acc cur (c # cs) =
     (if c = 32 then cur # split_acc [] cs else split_acc (cur @ [c]) cs)"

definition split :: "pystr \<Rightarrow> pystr list" where
  "split s = split_acc [] s"

subsection \<open>Python lists: the methods the pipeline calls on \<open>_stack\<close>\<close>

text \<open>The method names a Python \<open>list\<close> object has.\<close>

definition list_methods :: "string list" where
  "list_methods = [''append'', ''clear'', ''copy'', ''count'', ''extend'', ''index'',
     ''insert'', ''pop'', ''remove'', ''reverse'', ''sort'']"

text \<open>
  \<open>xs.push(x)\<close>: the attribute is looked up on the list first; a name that is not a list
  method raises \<open>AttributeError\<close> and the list is not touched.
\<close>

definition list_push :: "'a list \<Rightarrow> 'a \<Rightarrow> error + 'a list" where
  "list_push xs x =
     (if ''push'' \<in> set list_methods then Inr (xs @ [x])
      else Inl (AttributeError (u ''push'')))"

text \<open>\<open>xs.index(x)\<close>: position of the first element equal to \<open>x\<close>; \<open>None\<close> is \<open>ValueError\<close>.\<close>

fun list_index :: "'a list \<Rightarrow> 'a \<Rightarrow> nat option" where
  "list_index [] x = None"
| "list_index (y # ys) x =
     (if y = x then Some 0 else map_option Suc (list_index ys x))"

text \<open>\<open>xs.insert(i, x)\<close> for \<open>i \<ge> 0\<close>; an index past the end appends.\<close>

definition list_insert :: "'a list \<Rightarrow> nat \<Rightarrow> 'a \<Rightarrow> 'a list" where
  "list_insert xs i x = take i xs @ [x] @ drop i xs"

text \<open>\<open>xs.remove(x)\<close>: drops the first element equal to \<open>x\<close>; \<open>None\<close> is \<open>ValueError\<close>.\<close>

definition list_remove :: "'a list \<Rightarrow> 'a \<Rightarrow> 'a list option" where
  "list_remove xs x = (if x \<in> set xs then Some (remove1 x xs) else None)"

section \<open>\<open>lunr/pipeline.py\<close>\<close>

text \<open>
  A pipeline function is a Python function object: it has an identity, a behaviour and,
  once registered, a \<open>label\<close> attribute that \<open>register_function\<close> writes on the object
  itself. Function objects are therefore kept in a store and referred to by reference;
  two references are the same object exactly when they are equal, which is what
  \<open>list.index\<close> and \<open>list.remove\<close> compare for function objects.

  A stage takes the token, its index and the whole token list and returns a string.
\<close>

type_synonym fn_ref = nat

type_synonym 'tok stage = "'tok \<Rightarrow> nat \<Rightarrow> 'tok list \<Rightarrow> pystr"

text \<open>
  The state shared by all pipelines: the function objects (behaviour and \<open>label\<close>
  attribute, absent until set), the class attribute \<open>Pipeline.registered_functions\<close>,
  the warnings written to the module's logger, and the next unused reference.
\<close>

record 'tok world =
  fn_body :: "fn_ref \<Rightarrow> 'tok stage"
  fn_label :: "fn_ref \<rightharpoonup> pystr"
  registered_functions :: "pystr \<rightharpoonup> fn_ref"
  log :: "pystr list"
  next_ref :: fn_ref

text \<open>A \<open>Pipeline\<close> instance: its \<open>_stack\<close>.\<close>

record pipeline =
  stack :: "fn_ref list"

definition Pipeline :: pipeline where
  "Pipeline = \<lparr>stack = []\<rparr>"

definition len :: "pipeline \<Rightarrow> nat" where
  "len p = length (stack p)"

definition warning :: "pystr \<Rightarrow> 'tok world \<Rightarrow> 'tok world" where
  "warning msg w = w\<lparr>log := log w @ [msg]\<rparr>"

definition register_function :: "fn_ref \<Rightarrow> pystr \<Rightarrow> 'tok world \<Rightarrow> 'tok world" where
  "register_function fn label w =
     (let w1 = (if registered_functions w label \<noteq> None
                then warning (u ''Overwriting existing registered function '' @ label) w
                else w);
          w2 = w1\<lparr>fn_label := (fn_label w1)(fn \<mapsto> label)\<rparr>
      in w2\<lparr>registered_functions := (registered_functions w2)(label \<mapsto> fn)\<rparr>)"

text \<open>
  \<open>warn_if_function_not_registered\<close>: returns whether \<open>fn.label\<close> is a key of the
  registry; only a function without a \<open>label\<close> attribute (the \<open>AttributeError\<close> branch)
  is warned about, and then the method returns \<open>None\<close>.
\<close>

definition warn_if_function_not_registered ::
  "fn_ref \<Rightarrow> 'tok world \<Rightarrow> bool option \<times> 'tok world" where
  "warn_if_function_not_registered fn w =
     (case fn_label w fn of
        Some label \<Rightarrow> (Some (registered_functions w label \<noteq> None), w)
      | None \<Rightarrow>
          (None, warning (u ''Function is not registered with pipeline.This may cause problems when serialising the index.'') w))"

text \<open>\<open>add(*args)\<close>: for each argument, the registration check, then \<open>self._stack.push(fn)\<close>.\<close>

fun add ::
  "fn_ref list \<Rightarrow> pipeline \<Rightarrow> 'tok world \<Rightarrow> (error + unit) \<times> pipeline \<times> 'tok world" where
  "add [] p w = (Inr (), p, w)"
| "add (fn # args) p w =
     (let w' = snd (warn_if_function_not_registered fn w) in
      case list_push (stack p) fn of
        Inl e \<Rightarrow> (Inl e, p, w')
      | Inr st \<Rightarrow> add args (p\<lparr>stack := st\<rparr>) w')"

text \<open>\<open>load(serialised)\<close>: a new pipeline, each name looked up in the registry and added.\<close>

fun load_loop ::
  "pystr list \<Rightarrow> pipeline \<Rightarrow> 'tok world \<Rightarrow> (error + pipeline) \<times> 'tok world" where
  "load_loop [] p w = (Inr p, w)"
| "load_loop (fn_name # rest) p w =
     (case registered_functions w fn_name of
        None \<Rightarrow> (Inl (Exception (format (u ''Cannot load unregistered function '') fn_name)), w)
      | Some fn \<Rightarrow>
          (case add [fn] p w of
             (Inl e, p', w') \<Rightarrow> (Inl e, w')
           | (Inr _, p', w') \<Rightarrow> load_loop rest p' w'))"

definition load :: "pystr list \<Rightarrow> 'tok world \<Rightarrow> (error + pipeline) \<times> 'tok world" where
  "load serialised w = load_loop serialised Pipeline w"

definition after ::
  "fn_ref \<Rightarrow> fn_ref \<Rightarrow> pipeline \<Rightarrow> 'tok world \<Rightarrow> (error + unit) \<times> pipeline \<times> 'tok world" where
  "after existing_fn new_fn p w =
     (let w' = snd (warn_if_function_not_registered new_fn w) in
      case list_index (stack p) existing_fn of
        None \<Rightarrow> (Inl (Exception (u ''Cannot find existing_fn'')), p, w')
      | Some index \<Rightarrow> (Inr (), p\<lparr>stack := list_insert (stack p) (index + 1) new_fn\<rparr>, w'))"

definition before ::
  "fn_ref \<Rightarrow> fn_ref \<Rightarrow> pipeline \<Rightarrow> 'tok world \<Rightarrow> (error + unit) \<times> pipeline \<times> 'tok world" where
  "before existing_fn new_fn p w =
     (let w' = snd (warn_if_function_not_registered new_fn w) in
      case list_index (stack p) existing_fn of
        None \<Rightarrow> (Inl (Exception (u ''Cannot find existing_fn'')), p, w')
      | Some index \<Rightarrow> (Inr (), p\<lparr>stack := list_insert (stack p) index new_fn\<rparr>, w'))"

definition remove :: "fn_ref \<Rightarrow> pipeline \<Rightarrow> pipeline" where
  "remove fn p = (case list_remove (stack p) fn of Some st \<Rightarrow> p\<lparr>stack := st\<rparr> | None \<Rightarrow> p)"

text \<open>
  \<open>run(tokens)\<close>. The inner loop of one function: \<open>result\<close> starts as the empty string,
  each call's output is concatenated to it, and the loop breaks as soon as \<open>result\<close> is
  empty after a call. Every function is called on the tokens passed to \<open>run\<close>.
\<close>

fun run_tokens :: "'tok stage \<Rightarrow> 'tok list \<Rightarrow> nat \<Rightarrow> 'tok list \<Rightarrow> pystr \<Rightarrow> pystr" where
  "run_tokens fn tokens i [] result = result"
| "run_tokens fn tokens i (token # rest) result =
     (let result' = result @ fn token i tokens in
      if result' = [] then result' else run_tokens fn tokens (i + 1) rest result')"

fun run_stack :: "'tok world \<Rightarrow> fn_ref list \<Rightarrow> 'tok list \<Rightarrow> pystr list \<Rightarrow> pystr list" where
  "run_stack w [] tokens results = results"
| "run_stack w (fn # fns) tokens results =
     run_stack w fns tokens (results @ [run_tokens (fn_body w fn) tokens 0 tokens []])"

definition run :: "pipeline \<Rightarrow> 'tok list \<Rightarrow> 'tok world \<Rightarrow> pystr list" where
  "run p tokens w = run_stack w (stack p) tokens []"

definition reset :: "pipeline \<Rightarrow> pipeline" where
  "reset p = p\<lparr>stack := []\<rparr>"

text \<open>\<open>to_json\<close>: the labels of the stack; a function without \<open>label\<close> raises.\<close>

fun labels_of :: "'tok world \<Rightarrow> fn_ref list \<Rightarrow> error + pystr list" where
  "labels_of w [] = Inr []"
| "labels_of w (fn # fns) =
     (case fn_label w fn of
        None \<Rightarrow> Inl (AttributeError (u ''label''))
      | Some l \<Rightarrow> (case labels_of w fns of Inl e \<Rightarrow> Inl e | Inr ls \<Rightarrow> Inr (l # ls)))"

definition to_json :: "pipeline \<Rightarrow> 'tok world \<Rightarrow> error + pystr list" where
  "to_json p w = labels_of w (stack p)"

section \<open>\<open>lunr/languages/__init__.py\<close>\<close>

text \<open>The table from ISO-639-1 codes to the language names of the Snowball stemmers.\<close>

definition SUPPORTED_LANGUAGES :: "(pystr \<times> pystr) list" where
  "SUPPORTED_LANGUAGES =
     [(u ''fa'', u ''arabic''),
      (u ''ar'', u ''arabic''),
      (u ''da'', u ''danish''),
      (u ''nl'', u ''dutch''),
      (u ''en'', u ''english''),
      (u ''fi'', u ''finnish''),
      (u ''fr'', u ''french''),
      (u ''de'', u ''german''),
      (u ''hu'', u ''hungarian''),
      (u ''it'', u ''italian''),
      (u ''no'', u ''norwegian''),
      (u ''pt'', u ''portuguese''),
      (u ''ro'', u ''romanian''),
      (u ''ru'', u ''russian''),
      (u ''es'', u ''spanish''),
      (u ''sv'', u ''swedish'')]"

text \<open>\<open>SUPPORTED_LANGUAGES[language]\<close>: a missing key raises \<open>KeyError\<close>.\<close>

definition supported_language :: "pystr \<Rightarrow> error + pystr" where
  "supported_language language =
     (case map_of SUPPORTED_LANGUAGES language of
        None \<Rightarrow> Inl (KeyError language)
      | Some verbose_language \<Rightarrow> Inr verbose_language)"

text \<open>The string literal of \<open>persian_stopwords\<close>, as code points.\<close>

definition persian_stopwords_literal :: pystr where
  "persian_stopwords_literal =
    [
     1608, 32, 1583, 1585, 32, 1576, 1607, 32, 1575, 1586, 32, 1603, 1607, 32, 1605, 1610,
     32, 1575, 1610, 1606, 32, 1575, 1587, 1578, 32, 1585, 1575, 32, 1576, 1575, 32, 1607,
     1575, 1610, 32, 1576, 1585, 1575, 1610, 32, 1570, 1606, 32, 1610, 1603, 32, 1588, 1608,
     1583, 32, 1588, 1583, 1607, 32, 1582, 1608, 1583, 32, 1607, 1575, 32, 1603, 1585, 1583,
     32, 1588, 1583, 32, 1575, 1610, 32, 1578, 1575, 32, 1603, 1606, 1583, 32, 1576, 1585,
     32, 1576, 1608, 1583, 32, 1711, 1601, 1578, 32, 1606, 1610, 1586, 32, 1608, 1610, 32,
     1607, 1605, 32, 1603, 1606, 1606, 1583, 32, 1583, 1575, 1585, 1583, 32, 1605, 1575, 32,
     1603, 1585, 1583, 1607, 32, 1610, 1575, 32, 1575, 1605, 1575, 32, 1576, 1575, 1610,
     1583, 32, 1583, 1608, 32, 1575, 1606, 1583, 32, 1607, 1585, 32, 1582, 1608, 1575, 1607,
     1583, 32, 1575, 1608, 32, 1605, 1608, 1585, 1583, 32, 1570, 1606, 1607, 1575, 32, 1576,
     1575, 1588, 1583, 32, 1583, 1610, 1711, 1585, 32, 1605, 1585, 1583, 1605, 32, 1606,
     1605, 1610, 32, 1576, 1610, 1606, 32, 1662, 1610, 1588, 32, 1662, 1587, 32, 1575, 1711,
     1585, 32, 1607, 1605, 1607, 32, 1589, 1608, 1585, 1578, 32, 1610, 1603, 1610, 32, 1607,
     1587, 1578, 1606, 1583, 32, 1576, 1610, 32, 1605, 1606, 32, 1583, 1607, 1583, 32, 1607,
     1586, 1575, 1585, 32, 1606, 1610, 1587, 1578, 32, 1575, 1587, 1578, 1601, 1575, 1583,
     1607, 32, 1583, 1575, 1583, 32, 1583, 1575, 1588, 1578, 1607, 32, 1585, 1575, 1607, 32,
     1583, 1575, 1588, 1578, 32, 1670, 1607, 32, 1607, 1605, 1670, 1606, 1610, 1606, 32,
     1603, 1585, 1583, 1606, 1583, 32, 1583, 1575, 1583, 1607, 32, 1576, 1608, 1583, 1607,
     32, 1583, 1575, 1585, 1606, 1583, 32, 1607, 1605, 1610, 1606, 32, 1605, 1610, 1604,
     1610, 1608, 1606, 32, 1587, 1608, 1610, 32, 1588, 1608, 1606, 1583, 32, 1576, 1610,
     1588, 1578, 1585, 32, 1576, 1587, 1610, 1575, 1585, 32, 1585, 1608, 1610, 32, 1711,
     1585, 1601, 1578, 1607, 32, 1607, 1575, 1610, 1610, 32, 1578, 1608, 1575, 1606, 1583,
     32, 1575, 1608, 1604, 32, 1606, 1575, 1605, 32, 1607, 1610, 1670, 32, 1670, 1606, 1583,
     32, 1580, 1583, 1610, 1583, 32, 1576, 1610, 1588, 32, 1588, 1583, 1606, 32, 1603, 1585,
     1583, 1606, 32, 1603, 1606, 1610, 1605, 32, 1606, 1588, 1575, 1606, 32, 1581, 1578,
     1610, 32, 1575, 1610, 1606, 1603, 1607, 32, 1608, 1604, 1740, 32, 1578, 1608, 1587,
     1591, 32, 1670, 1606, 1610, 1606, 32, 1576, 1585, 1582, 1610, 32, 1606, 1607, 32, 1583,
     1610, 1585, 1608, 1586, 32, 1583, 1608, 1605, 32, 1583, 1585, 1576, 1575, 1585, 1607,
     32, 1576, 1593, 1583, 32, 1605, 1582, 1578, 1604, 1601, 32, 1711, 1610, 1585, 1583, 32,
     1588, 1605, 1575, 32, 1711, 1601, 1578, 1607, 32, 1570, 1606, 1575, 1606, 32, 1576,
     1575, 1585, 32, 1591, 1608, 1585, 32, 1711, 1585, 1601, 1578, 32, 1583, 1607, 1606,
     1583, 32, 1711, 1584, 1575, 1585, 1610, 32, 1576, 1587, 1610, 1575, 1585, 1610, 32,
     1591, 1610, 32, 1576, 1608, 1583, 1606, 1583, 32, 1605, 1610, 1604, 1610, 1575, 1585,
     1583, 32, 1576, 1583, 1608, 1606, 32, 1578, 1605, 1575, 1605, 32, 1603, 1604, 32, 1578,
     1585, 32, 32, 1576, 1585, 1575, 1587, 1575, 1587, 32, 1588, 1583, 1606, 1583, 32, 1578,
     1585, 1610, 1606, 32, 1575, 1605, 1585, 1608, 1586, 32, 1576, 1575, 1588, 1606, 1583,
     32, 1606, 1583, 1575, 1585, 1583, 32, 1670, 1608, 1606, 32, 1602, 1575, 1576, 1604, 32,
     1711, 1608, 1610, 1583, 32, 1583, 1610, 1711, 1585, 1610, 32, 1607, 1605, 1575, 1606,
     32, 1582, 1608, 1575, 1607, 1606, 1583, 32, 1602, 1576, 1604, 32, 1570, 1605, 1583,
     1607, 32, 1575, 1603, 1606, 1608, 1606, 32, 1578, 1581, 1578, 32, 1591, 1585, 1610,
     1602, 32, 1711, 1610, 1585, 1610, 32, 1580, 1575, 1610, 32, 1607, 1606, 1608, 1586, 32,
     1670, 1585, 1575, 32, 1575, 1604, 1576, 1578, 1607, 32, 1603, 1606, 1610, 1583, 32,
     1587, 1575, 1586, 1610, 32, 1587, 1608, 1605, 32, 1603, 1606, 1605, 32, 1576, 1604,
     1603, 1607, 32, 1586, 1610, 1585, 32, 1578, 1608, 1575, 1606, 1606, 1583, 32, 1590,
     1605, 1606, 32, 1601, 1602, 1591, 32, 1576, 1608, 1583, 1606, 32, 1581, 1602, 32, 1570,
     1610, 1583, 32, 1608, 1602, 1578, 1610, 32, 1575, 1588, 32, 1610, 1575, 1576, 1583, 32,
     1606, 1582, 1587, 1578, 1610, 1606, 32, 1605, 1602, 1575, 1576, 1604, 32, 1582, 1583,
     1605, 1575, 1578, 32, 1575, 1605, 1587, 1575, 1604, 32, 1578, 1575, 1603, 1606, 1608,
     1606, 32, 1605, 1575, 1606, 1606, 1583, 32, 1578, 1575, 1586, 1607, 32, 1570, 1608,
     1585, 1583, 32, 1601, 1603, 1585, 32, 1570, 1606, 1670, 1607, 32, 1606, 1582, 1587,
     1578, 32, 1606, 1588, 1583, 1607, 32, 1588, 1575, 1610, 1583, 32, 1670, 1607, 1575,
     1585, 32, 1580, 1585, 1610, 1575, 1606, 32, 1662, 1606, 1580, 32, 1587, 1575, 1582,
     1578, 1607, 32, 1586, 1610, 1585, 1575, 32, 1606, 1586, 1583, 1610, 1603, 32, 1576,
     1585, 1583, 1575, 1585, 1610, 32, 1603, 1587, 1610, 32, 1585, 1610, 1586, 1610, 32,
     1585, 1601, 1578, 32, 1711, 1585, 1583, 1583, 32, 1605, 1579, 1604, 32, 1570, 1605,
     1583, 32, 1575, 1605, 32, 1576, 1607, 1578, 1585, 1610, 1606, 32, 1583, 1575, 1606,
     1587, 1578, 32, 1603, 1605, 1578, 1585, 32, 1583, 1575, 1583, 1606, 32, 1578, 1605,
     1575, 1605, 1610, 32, 1580, 1604, 1608, 1711, 1610, 1585, 1610, 32, 1576, 1610, 1588,
     1578, 1585, 1610, 32, 1575, 1610, 1605, 32, 1606, 1575, 1588, 1610, 32, 1670, 1610,
     1586, 1610, 32, 1570, 1606, 1603, 1607, 32, 1576, 1575, 1604, 1575, 32, 1576, 1606,
     1575, 1576, 1585, 1575, 1610, 1606, 32, 1575, 1610, 1588, 1575, 1606, 32, 1576, 1593,
     1590, 1610, 32, 1583, 1575, 1583, 1606, 1583, 32, 1583, 1575, 1588, 1578, 1606, 1583,
     32, 1576, 1585, 1582, 1608, 1585, 1583, 1575, 1585, 32, 1606, 1582, 1608, 1575, 1607,
     1583, 32, 1607, 1606, 1711, 1575, 1605, 32, 1606, 1576, 1575, 1610, 1583, 32, 1594,
     1610, 1585, 32, 1606, 1576, 1608, 1583, 32, 1583, 1610, 1583, 1607, 32, 1608, 1711,
     1608, 32, 1583, 1575, 1585, 1610, 1605, 32, 1670, 1711, 1608, 1606, 1607, 32, 1576,
     1606, 1583, 1610, 32, 1582, 1608, 1575, 1587, 1578, 32, 1601, 1608, 1602, 32, 1583,
     1607, 32, 1606, 1608, 1593, 1610, 32, 1607, 1587, 1578, 1610, 1605, 32, 1583, 1610,
     1711, 1585, 1575, 1606, 32, 1607, 1605, 1670, 1606, 1575, 1606, 32, 1587, 1585, 1575,
     1587, 1585, 32, 1606, 1583, 1575, 1585, 1606, 1583, 32, 1711, 1585, 1608, 1607, 1610,
     32, 1587, 1593, 1610, 32, 1585, 1608, 1586, 1607, 1575, 1610, 32, 1570, 1606, 1580,
     1575, 32, 1610, 1603, 1583, 1610, 1711, 1585, 32, 1603, 1585, 1583, 1605, 32, 1576,
     1610, 1587, 1578, 32, 1576, 1585, 1608, 1586, 32, 1587, 1662, 1587, 32, 1585, 1601,
     1578, 1607, 32, 1570, 1608, 1585, 1583, 1607, 32, 1606, 1605, 1575, 1610, 1583, 32,
     1576, 1575, 1588, 1610, 1605, 32, 1711, 1608, 1610, 1606, 1583, 32, 1586, 1610, 1575,
     1583, 32, 1582, 1608, 1610, 1588, 32, 1607, 1605, 1608, 1575, 1585, 1607, 32, 1711,
     1584, 1575, 1588, 1578, 1607, 32, 1588, 1588, 32, 32, 1606, 1583, 1575, 1588, 1578,
     1607, 32, 1588, 1606, 1575, 1587, 1610, 32, 1582, 1608, 1575, 1607, 1610, 1605, 32,
     1570, 1576, 1575, 1583, 32, 1583, 1575, 1588, 1578, 1606, 32, 1606, 1592, 1610, 1585,
     32, 1607, 1605, 1670, 1608, 1606, 32, 1576, 1575, 1585, 1607, 32, 1606, 1603, 1585,
     1583, 1607, 32, 1588, 1575, 1606, 32, 1587, 1575, 1576, 1602, 32, 1607, 1601, 1578, 32,
     1583, 1575, 1606, 1606, 1583, 32, 1580, 1575, 1610, 1610, 32, 1576, 1740, 32, 1580,
     1586, 32, 1586, 1740, 1585, 1616, 32, 1585, 1608, 1740, 1616, 32, 1587, 1585, 1740,
     1616, 32, 1578, 1608, 1740, 1616, 32, 1580, 1604, 1608, 1740, 1616, 32, 1662, 1740,
     1588, 1616, 32, 1593, 1602, 1576, 1616, 32, 1576, 1575, 1604, 1575, 1740, 1616, 32,
     1582, 1575, 1585, 1580, 1616, 32, 1608, 1587, 1591, 1616, 32, 1576, 1740, 1585, 1608,
     1606, 1616, 32, 1587, 1608, 1740, 1616, 32, 1705, 1606, 1575, 1585, 1616, 32, 1662,
     1575, 1593, 1740, 1606, 1616, 32, 1606, 1586, 1583, 1616, 32, 1606, 1586, 1583, 1740,
     1705, 1616, 32, 1583, 1606, 1576, 1575, 1604, 1616, 32, 1581, 1583, 1608, 1583, 1616,
     32, 1576, 1585, 1575, 1576, 1585, 1616, 32, 1591, 1576, 1602, 1616, 32, 1605, 1575,
     1606, 1606, 1583, 1616, 32, 1590, 1583, 1617, 1616, 32, 1607, 1606, 1711, 1575, 1605,
     1616, 32, 1576, 1585, 1575, 1740, 1616, 32, 1605, 1579, 1604, 1616, 32, 1576, 1575,
     1585, 1577, 32, 1575, 1579, 1585, 1616, 32, 1578, 1608, 1604, 1616, 32, 1593, 1604,
     1617, 1578, 1616, 32, 1587, 1605, 1578, 1616, 32, 1593, 1606, 1608, 1575, 1606, 1616,
     32, 1602, 1589, 1583, 1616, 32, 1585, 1608, 1576, 32, 1580, 1583, 1575, 32, 1705, 1740,
     32, 1705, 1607, 32, 1670, 1740, 1587, 1578, 32, 1607, 1587, 1578, 32, 1705, 1580, 1575,
     32, 1705, 1580, 1575, 1587, 1578, 32, 1705, 1614, 1740, 32, 1670, 1591, 1608, 1585, 32,
     1705, 1583, 1575, 1605, 32, 1570, 1740, 1575, 32, 1605, 1711, 1585, 32, 1670, 1606,
     1583, 1740, 1606, 32, 1740, 1705, 32, 1670, 1740, 1586, 1740, 32, 1583, 1740, 1711,
     1585, 32, 1705, 1587, 1740, 32, 1576, 1593, 1585, 1740, 32, 1607, 1740, 1670, 32, 1670,
     1740, 1586, 32, 1580, 1575, 32, 1705, 1587, 32, 1607, 1585, 1711, 1586, 32, 1740, 1575,
     32, 1578, 1606, 1607, 1575, 32, 1576, 1604, 1705, 1607, 32, 1582, 1740, 1575, 1607, 32,
     1576, 1604, 1607, 32, 1576, 1604, 1740, 32, 1570, 1585, 1607, 32, 1570, 1585, 1740, 32,
     1605, 1585, 1587, 1740, 32, 1575, 1604, 1576, 1578, 1617, 1607, 32, 1604, 1591, 1601,
     1575, 1611, 32, 1617, 1607, 32, 1575, 1606, 1705, 1607, 32, 1608, 1602, 1578, 1740,
     1705, 1607, 32, 1607, 1605, 1740, 1606, 32, 1662, 1740, 1588, 32, 1605, 1583, 1617,
     1578, 1740, 32, 1607, 1606, 1711, 1575, 1605, 1740, 32, 1605, 1575, 1606, 32, 1578,
     1575, 1606
    ]"

definition persian_stopwords :: "pystr set" where
  "persian_stopwords = set (split persian_stopwords_literal)"

text \<open>
  What the module imports and does not define is a parameter of the model: the stop-word
  corpus of nltk (\<open>nltk.corpus.stopwords.words\<close>), the two default function objects of
  lunr (\<open>lunr.stemmer.stemmer\<close> and \<open>stop_word_filter\<close>), \<open>generate_trimmer\<close> and
  \<open>generate_stop_word_filter\<close> (each returns a function object and may change the shared
  state in any way), \<open>nltk_stemmer\<close> applied to a stemmer object, the Snowball stemmer
  object of a language name, and the pipelines a fresh \<open>Builder()\<close> holds. The stop words
  are only ever tested for membership and iterated into a set, so they are passed on as
  the set of their elements.
\<close>

record builder =
  pipeline :: pipeline
  search_pipeline :: pipeline

record ('tok, 'st) env =
  stopwords_words :: "pystr \<Rightarrow> pystr list"
  stemmer :: fn_ref
  stop_word_filter :: fn_ref
  generate_trimmer :: "pystr \<Rightarrow> 'tok world \<Rightarrow> fn_ref \<times> 'tok world"
  generate_stop_word_filter :: "pystr set \<Rightarrow> pystr \<Rightarrow> 'tok world \<Rightarrow> fn_ref \<times> 'tok world"
  nltk_stemmer :: "'st \<Rightarrow> 'tok stage"
  SnowballStemmer :: "pystr \<Rightarrow> 'st"
  Builder :: builder

text \<open>
  A new function object (a \<open>def\<close> or a \<open>functools.partial\<close>): the next unused
  reference, with the given behaviour and no \<open>label\<close> attribute.
\<close>

definition new_function :: "'tok stage \<Rightarrow> 'tok world \<Rightarrow> fn_ref \<times> 'tok world" where
  "new_function body w =
     (next_ref w,
      w\<lparr>fn_body := (fn_body w)(next_ref w := body),
        fn_label := (fn_label w)(next_ref w := None),
        next_ref := Suc (next_ref w)\<rparr>)"


text \<open>\<open>{c for word in stopwords for c in word}\<close>: the one-character strings of the words.\<close>

definition word_characters_of :: "pystr set \<Rightarrow> pystr set" where
  "word_characters_of stopwords = (\<Union>word \<in> stopwords. (\<lambda>c. [c]) ` set word)"

text \<open>
  \<open>_get_stopwords_and_word_characters(language)\<close>. The corpus is asked for the words of
  the verbose language name; for \<open>fa\<close> that answer is replaced by \<open>persian_stopwords\<close>.
  The download of the corpus that precedes the lookup is left out.
\<close>

definition get_stopwords_and_word_characters ::
  "('tok, 'st) env \<Rightarrow> pystr \<Rightarrow> error + (pystr set \<times> pystr set)" where
  "get_stopwords_and_word_characters env language =
     (case supported_language language of
        Inl e \<Rightarrow> Inl e
      | Inr verbose_language \<Rightarrow>
          (let stopwords = set (stopwords_words env verbose_language);
               stopwords = (if language = u ''fa'' then persian_stopwords else stopwords);
               word_characters = word_characters_of stopwords
           in Inr (stopwords, word_characters)))"

text \<open>
  The loop of \<open>get_nltk_builder\<close> over the languages, with its three accumulators
  \<open>all_stemmers\<close>, \<open>all_stopwords_filters\<close> and \<open>all_word_characters\<close>. The marker the
  default language contributes is the two-character string backslash, w.
\<close>

fun collect_languages ::
  "('tok, 'st) env \<Rightarrow> pystr list \<Rightarrow> fn_ref list \<times> fn_ref list \<times> pystr set \<Rightarrow> 'tok world \<Rightarrow>
     (error + fn_ref list \<times> fn_ref list \<times> pystr set) \<times> 'tok world" where
  "collect_languages env [] acc w = (Inr acc, w)"
| "collect_languages env (language # rest)
     (all_stemmers, all_stopwords_filters, all_word_characters) w =
     (if language = u ''en'' then
        collect_languages env rest
          (all_stemmers @ [stemmer env],
           all_stopwords_filters @ [stop_word_filter env],
           all_word_characters \<union> {[92, 119]}) w
      else
        (case get_stopwords_and_word_characters env language of
           Inl e \<Rightarrow> (Inl e, w)
         | Inr (stopwords, word_characters) \<Rightarrow>
             (case registered_functions w (format (u ''stemmer-{}'') language) of
                None \<Rightarrow> (Inl (KeyError (format (u ''stemmer-{}'') language)), w)
              | Some language_stemmer \<Rightarrow>
                  (let (filter_fn, w') = generate_stop_word_filter env stopwords language w in
                   collect_languages env rest
                     (all_stemmers @ [language_stemmer],
                      all_stopwords_filters @ [filter_fn],
                      all_word_characters \<union> word_characters) w'))))"

text \<open>\<open>for fn in fns: p.add(fn)\<close>.\<close>

fun add_each ::
  "fn_ref list \<Rightarrow> pipeline \<Rightarrow> 'tok world \<Rightarrow> (error + unit) \<times> pipeline \<times> 'tok world" where
  "add_each [] p w = (Inr (), p, w)"
| "add_each (fn # fns) p w =
     (case add [fn] p w of
        (Inl e, p', w') \<Rightarrow> (Inl e, p', w')
      | (Inr _, p', w') \<Rightarrow> add_each fns p' w')"

text \<open>The label the merged trimmer is registered under.\<close>

definition multi_trimmer_label :: "pystr list \<Rightarrow> pystr" where
  "multi_trimmer_label languages =
     format (u ''lunr-multi-trimmer-{}'') (join (u ''-'') languages)"

text \<open>\<open>"".join(sorted(all_word_characters))\<close>.\<close>

definition merged_word_characters :: "pystr set \<Rightarrow> pystr" where
  "merged_word_characters all_word_characters =
     join [] (sorted_list_of_set all_word_characters)"

definition get_nltk_builder ::
  "('tok, 'st) env \<Rightarrow> pystr list \<Rightarrow> 'tok world \<Rightarrow> (error + builder) \<times> 'tok world" where
  "get_nltk_builder env languages w =
     (case collect_languages env languages ([], [], {}) w of
        (Inl e, w1) \<Rightarrow> (Inl e, w1)
      | (Inr (all_stemmers, all_stopwords_filters, all_word_characters), w1) \<Rightarrow>
          (let b = Builder env;
               (multi_trimmer, w2) =
                  generate_trimmer env (merged_word_characters all_word_characters) w1;
               w3 = register_function multi_trimmer (multi_trimmer_label languages) w2;
               b = b\<lparr>pipeline := reset (pipeline b)\<rparr>
           in case add_each (multi_trimmer # all_stopwords_filters @ all_stemmers)
                     (pipeline b) w3 of
                (Inl e, p, w4) \<Rightarrow> (Inl e, w4)
              | (Inr _, p, w4) \<Rightarrow>
                  (case add_each all_stemmers (search_pipeline b) w4 of
                     (Inl e, sp, w5) \<Rightarrow> (Inl e, w5)
                   | (Inr _, sp, w5) \<Rightarrow>
                       (Inr (b\<lparr>pipeline := p, search_pipeline := sp\<rparr>), w5))))"



text \<open>
  The word characters one language contributes to \<open>all_word_characters\<close> in the loop of
  \<open>get_nltk_builder\<close>.
\<close>

definition language_word_characters :: "('tok, 'st) env \<Rightarrow> pystr \<Rightarrow> pystr set" where
  "language_word_characters env language =
     (if language = u ''en'' then {[92, 119]}
      else case get_stopwords_and_word_characters env language of
             Inl e \<Rightarrow> {}
           | Inr (stopwords, word_characters) \<Rightarrow> word_characters)"

section \<open>The execution semantics the specification asks for\<close>

text \<open>
  The chain of the specification, written from its words for tokens that are their own
  text: each stage maps every token of the current sequence (with its index and the
  current sequence), drops the empty outputs, and hands the outputs to the next stage.
\<close>

definition run_stage_as_specified :: "pystr stage \<Rightarrow> pystr list \<Rightarrow> pystr list" where
  "run_stage_as_specified fn current =
     filter (\<lambda>out. out \<noteq> [])
       (map (\<lambda>(i, t). fn t i current) (zip [0..<length current] current))"

fun run_as_specified :: "pystr world \<Rightarrow> fn_ref list \<Rightarrow> pystr list \<Rightarrow> pystr list" where
  "run_as_specified w [] current = current"
| "run_as_specified w (fn # fns) current =
     run_as_specified w fns (run_stage_as_specified (fn_body w fn) current)"

section \<open>A small world to run the code in\<close>

text \<open>
  Four function objects over tokens that are plain strings. Objects 0, 1 and 2 are
  registered as \<open>stemmer\<close>, \<open>stopWordFilter\<close> and \<open>stemmer-fr\<close>; object 3 was never
  registered and has no label. Object 1 returns the empty string for a token shorter
  than three characters; the others return the token.
\<close>

definition example_world :: "pystr world" where
  "example_world =
     \<lparr>fn_body = (\<lambda>r token i tokens.
          if r = 1 then (if length token < 3 then [] else token) else token),
      fn_label = [0 \<mapsto> u ''stemmer'', 1 \<mapsto> u ''stopWordFilter'', 2 \<mapsto> u ''stemmer-fr''],
      registered_functions =
        [u ''stemmer'' \<mapsto> 0, u ''stopWordFilter'' \<mapsto> 1, u ''stemmer-fr'' \<mapsto> 2],
      log = [],
      next_ref = 4\<rparr>"

text \<open>
  The capabilities to go with it: a corpus with two French and two German stop words,
  generators that only create a new function object, and a builder whose two pipelines
  start empty.
\<close>

definition example_env :: "(pystr, pystr) env" where
  "example_env =
     \<lparr>stopwords_words = (\<lambda>verbose_language.
          if verbose_language = u ''french'' then [u ''le'', u ''la'']
          else if verbose_language = u ''german'' then [u ''der'', u ''die'']
          else []),
      stemmer = 0,
      stop_word_filter = 1,
      generate_trimmer = (\<lambda>word_characters. new_function (\<lambda>token i tokens. token)),
      generate_stop_word_filter = (\<lambda>stopwords language.
          new_function (\<lambda>token i tokens. if token \<in> stopwords then [] else token)),
      nltk_stemmer = (\<lambda>st token i tokens. token),
      SnowballStemmer = (\<lambda>verbose_language. verbose_language),
      Builder = \<lparr>pipeline = Pipeline, search_pipeline = Pipeline\<rparr>\<rparr>"

section \<open>Facts about the list methods and the pipeline operations\<close>

lemma list_push_raises: "list_push xs x = Inl (AttributeError (u ''push''))"
  by (simp add: list_push_def list_methods_def)

lemma add_Cons_raises:
  "add (fn # args) p w =
     (Inl (AttributeError (u ''push'')), p, snd (warn_if_function_not_registered fn w))"
  by (simp add: list_push_raises)

lemma list_index_first: "x \<notin> set xs \<Longrightarrow> list_index (xs @ x # ys) x = Some (length xs)"
  by (induction xs) auto

lemma list_index_absent: "x \<notin> set xs \<Longrightarrow> list_index xs x = None"
  by (induction xs) auto

lemma run_stack_map:
  "run_stack w fns tokens results =
     results @ map (\<lambda>fn. run_tokens (fn_body w fn) tokens 0 tokens []) fns"
  by (induction fns arbitrary: results) auto

lemma run_length: "length (run p tokens w) = length (stack p)"
  by (simp add: run_def run_stack_map)

section \<open>The claims about \<open>Pipeline\<close>\<close>

text \<open>
  C1. The specification has \<open>run\<close> execute the stages as a per-token map/filter chain:
  an empty output drops the token, a non-empty output becomes a token of the next
  sequence, and each stage's output list is the next stage's input; the final token
  sequence is returned. The code does not: on the pipeline (drop tokens shorter than
  three characters, then stem) and the tokens a, cat, dog the chain gives the two
  tokens cat and dog, while \<open>run\<close> returns one string per stage, the empty string for
  the first stage (its loop breaks at the dropped first token) and the concatenation
  acatdog for the second, which was called on the original tokens.
\<close>

theorem run_is_not_the_chain:
  "run \<lparr>stack = [1, 0]\<rparr> [u ''a'', u ''cat'', u ''dog''] example_world = [[], u ''acatdog'']
   \<and> run_as_specified example_world [1, 0] [u ''a'', u ''cat'', u ''dog'']
       = [u ''cat'', u ''dog'']"
  by (simp add: run_def run_stage_as_specified_def example_world_def u_def)

text \<open>
  C2. The specification has \<open>run\<close> return as many tokens as it was given, in the same
  order, when no stage drops a token. The code returns one string per stage: with the
  single stage that returns every token unchanged, the two tokens cat and dog come
  back as the one string catdog.
\<close>

theorem run_length_is_stage_count:
  "run \<lparr>stack = [0]\<rparr> [u ''cat'', u ''dog''] example_world = [u ''catdog'']
   \<and> length (run \<lparr>stack = [0]\<rparr> [u ''cat'', u ''dog''] example_world) = 1
   \<and> length [u ''cat'', u ''dog''] = 2"
  by (simp add: run_def example_world_def u_def)

text \<open>
  C3. The specification has \<open>load(p.to_json())\<close> build a pipeline that runs like \<open>p\<close> when
  all functions of \<open>p\<close> are registered. For the pipeline that holds the registered
  function \<open>stemmer-fr\<close>, \<open>to_json\<close> gives its label, and \<open>load\<close> of that label raises
  \<open>AttributeError\<close> from \<open>add\<close> instead of returning a pipeline.
\<close>

theorem load_of_to_json_raises:
  "to_json \<lparr>stack = [2]\<rparr> example_world = Inr [u ''stemmer-fr'']
   \<and> load [u ''stemmer-fr''] example_world
       = (Inl (AttributeError (u ''push'')), example_world)"
  by (simp add: to_json_def load_def example_world_def u_def Pipeline_def
      list_push_raises warn_if_function_not_registered_def)

text \<open>
  C4. The specification has \<open>add\<close> append each argument to the end of the stack. Adding
  the registered function \<open>stemmer\<close> to an empty pipeline raises \<open>AttributeError\<close>, a
  Python list having no \<open>push\<close>, and the stack stays empty; for the unregistered
  function 3 the warning is logged first and the same error follows.
\<close>

theorem add_raises_attribute_error:
  "add [0] Pipeline example_world
     = (Inl (AttributeError (u ''push'')), Pipeline, example_world)
   \<and> add [3] Pipeline example_world
     = (Inl (AttributeError (u ''push'')), Pipeline,
        warning (u ''Function is not registered with pipeline.This may cause problems when serialising the index.'') example_world)"
  by (simp add: list_push_raises warn_if_function_not_registered_def example_world_def)

text \<open>
  C5. The specification has \<open>load\<close> append the resolved functions in order and, on the
  first unregistered label, fail with an error whose message names that label. For the
  unregistered label \<open>stemmer-xx\<close> the code raises an exception whose message is the
  template alone, without the label (the template has no replacement field); for the
  registered label \<open>stemmer\<close> it raises \<open>AttributeError\<close> from \<open>add\<close>.
\<close>

theorem load_error_does_not_name_label:
  "load [u ''stemmer-xx''] example_world
     = (Inl (Exception (u ''Cannot load unregistered function '')), example_world)
   \<and> load [u ''stemmer''] example_world
     = (Inl (AttributeError (u ''push'')), example_world)"
  by (simp add: load_def example_world_def u_def Pipeline_def
      list_push_raises warn_if_function_not_registered_def)

text \<open>
  C6. \<open>before\<close> and \<open>after\<close> find the first occurrence of \<open>existing_fn\<close> in the stack,
  comparing function objects by identity, and insert \<open>new_fn\<close> immediately before
  (after) it; when \<open>existing_fn\<close> is not in the stack they raise the exception
  \<open>Cannot find existing_fn\<close> (the specification's NotFoundError) and the pipeline is
  returned as it was.
\<close>

theorem before_after_insert_or_raise:
  "(stack p = xs @ existing_fn # ys \<and> existing_fn \<notin> set xs \<longrightarrow>
      before existing_fn new_fn p w
        = (Inr (), p\<lparr>stack := xs @ new_fn # existing_fn # ys\<rparr>,
           snd (warn_if_function_not_registered new_fn w))
      \<and> after existing_fn new_fn p w
        = (Inr (), p\<lparr>stack := xs @ existing_fn # new_fn # ys\<rparr>,
           snd (warn_if_function_not_registered new_fn w)))
   \<and> (existing_fn \<notin> set (stack p) \<longrightarrow>
      before existing_fn new_fn p w
        = (Inl (Exception (u ''Cannot find existing_fn'')), p,
           snd (warn_if_function_not_registered new_fn w))
      \<and> after existing_fn new_fn p w
        = (Inl (Exception (u ''Cannot find existing_fn'')), p,
           snd (warn_if_function_not_registered new_fn w)))"
  by (auto simp: before_def after_def list_index_first list_index_absent list_insert_def
      Let_def)

theorem before_after_insert_or_raise_witness:
  "stack \<lparr>stack = [0, 1, 0, 1]\<rparr> = [0] @ 1 # [0, 1] \<and> (1::nat) \<notin> set [0]
   \<and> (2::nat) \<notin> set (stack \<lparr>stack = [0, 1, 0, 1]\<rparr>)
   \<and> before 1 2 \<lparr>stack = [0, 1, 0, 1]\<rparr> example_world
      = (Inr (), \<lparr>stack = [0, 2, 1, 0, 1]\<rparr>, example_world)
   \<and> after 1 2 \<lparr>stack = [0, 1, 0, 1]\<rparr> example_world
      = (Inr (), \<lparr>stack = [0, 1, 2, 0, 1]\<rparr>, example_world)
   \<and> before 2 0 \<lparr>stack = [0, 1, 0, 1]\<rparr> example_world
      = (Inl (Exception (u ''Cannot find existing_fn'')), \<lparr>stack = [0, 1, 0, 1]\<rparr>,
         example_world)
   \<and> after 2 0 \<lparr>stack = [0, 1, 0, 1]\<rparr> example_world
      = (Inl (Exception (u ''Cannot find existing_fn'')), \<lparr>stack = [0, 1, 0, 1]\<rparr>,
         example_world)"
  using before_after_insert_or_raise
          [where p = "\<lparr>stack = [0, 1, 0, 1]\<rparr>" and xs = "[0]" and existing_fn = 1
             and ys = "[0, 1]" and new_fn = 2 and w = example_world]
        before_after_insert_or_raise
          [where p = "\<lparr>stack = [0, 1, 0, 1]\<rparr>" and xs = "[]" and existing_fn = 2
             and ys = "[]" and new_fn = 0 and w = example_world]
  by (simp add: warn_if_function_not_registered_def example_world_def)

section \<open>Facts about the language bundler\<close>

lemma add_each_Cons_raises:
  "add_each (fn # fns) p w =
     (Inl (AttributeError (u ''push'')), p, snd (warn_if_function_not_registered fn w))"
  by (simp add: list_push_raises)


lemma format_trimmer: "multi_trimmer_label ls = u ''lunr-multi-trimmer-'' @ join (u ''-'') ls"
  by (simp add: u_def multi_trimmer_label_def)

lemma en_supported: "map_of SUPPORTED_LANGUAGES (u ''en'') = Some (u ''english'')"
  by (simp add: SUPPORTED_LANGUAGES_def u_def)


lemma finite_word_characters_of: "finite stopwords \<Longrightarrow> finite (word_characters_of stopwords)"
  by (simp add: word_characters_of_def)

lemma get_stopwords_finite:
  "get_stopwords_and_word_characters env language = Inr (stopwords, word_characters) \<Longrightarrow>
     finite word_characters"
  by (auto simp: get_stopwords_and_word_characters_def Let_def persian_stopwords_def
      finite_word_characters_of split: sum.splits if_splits)

lemma finite_language_word_characters: "finite (language_word_characters env language)"
  by (auto simp: language_word_characters_def get_stopwords_finite split: sum.splits)

lemma collect_characters:
  "collect_languages env languages acc w = (Inr (sts, fs, chars), w') \<Longrightarrow>
     chars = snd (snd acc) \<union> (\<Union>l\<in>set languages. language_word_characters env l)"
proof (induction env languages acc w rule: collect_languages.induct)
  case (1 env acc w)
  then show ?case by simp
next
  case (2 env language rest all_stemmers all_stopwords_filters all_word_characters w)
  show ?case
  proof (cases "language = u ''en''")
    case True
    have lwc_en: "language_word_characters env language = {[92, 119]}"
      using True by (simp add: language_word_characters_def)
    from "2.prems" True
    have "collect_languages env rest
            (all_stemmers @ [stemmer env], all_stopwords_filters @ [stop_word_filter env],
             all_word_characters \<union> {[92, 119]}) w = (Inr (sts, fs, chars), w')"
      by simp
    from "2.IH"(1)[OF True this] show ?thesis
      by (simp add: lwc_en Un_assoc)
  next
    case False
    show ?thesis
    proof (cases "get_stopwords_and_word_characters env language")
      case (Inl e)
      with False 2 show ?thesis by simp
    next
      case (Inr sw)
      obtain stopwords word_characters where sw: "sw = (stopwords, word_characters)"
        by (cases sw)
      have lwc: "language_word_characters env language = word_characters"
        using False Inr sw by (simp add: language_word_characters_def)
      show ?thesis
      proof (cases "registered_functions w (format (u ''stemmer-{}'') language)")
        case None
        with False Inr sw 2 show ?thesis by simp
      next
        case (Some st)
        obtain f w1 where g: "generate_stop_word_filter env stopwords language w = (f, w1)"
          by (cases "generate_stop_word_filter env stopwords language w")
        from "2.prems" False Inr sw Some g
        have "collect_languages env rest
                (all_stemmers @ [st], all_stopwords_filters @ [f],
                 all_word_characters \<union> word_characters) w1 = (Inr (sts, fs, chars), w')"
          by simp
        from "2.IH"(2)[OF False Inr sw[symmetric] Some refl g[symmetric] this]
        show ?thesis by (simp add: lwc Un_assoc)
      qed
    qed
  qed
qed

lemma warn_registered:
  "fn_label w fn = Some l \<Longrightarrow> snd (warn_if_function_not_registered fn w) = w"
  by (simp add: warn_if_function_not_registered_def)

lemma get_nltk_builder_collected:
  assumes "collect_languages env languages ([], [], {}) w = (Inr (sts, fs, chars), w1)"
  shows "get_nltk_builder env languages w =
     (Inl (AttributeError (u ''push'')),
      register_function (fst (generate_trimmer env (merged_word_characters chars) w1))
        (multi_trimmer_label languages)
        (snd (generate_trimmer env (merged_word_characters chars) w1)))"
proof -
  obtain t w2 where g: "generate_trimmer env (merged_word_characters chars) w1 = (t, w2)"
    by (cases "generate_trimmer env (merged_word_characters chars) w1")
  let ?w3 = "register_function t (multi_trimmer_label languages) w2"
  have "fn_label ?w3 t = Some (multi_trimmer_label languages)"
    by (simp add: register_function_def Let_def warning_def)
  then have "snd (warn_if_function_not_registered t ?w3) = ?w3"
    by (rule warn_registered)
  with assms g show ?thesis
    by (simp add: get_nltk_builder_def Let_def add_each_Cons_raises del: add_each.simps)
qed

lemma get_nltk_builder_not_collected:
  "collect_languages env languages ([], [], {}) w = (Inl e, w1) \<Longrightarrow>
     get_nltk_builder env languages w = (Inl e, w1)"
  by (simp add: get_nltk_builder_def)

lemma get_nltk_builder_never_returns: "fst (get_nltk_builder env languages w) \<noteq> Inr b"
proof (cases "collect_languages env languages ([], [], {}) w")
  case (Pair res w1)
  show ?thesis
  proof (cases res)
    case (Inl e)
    with Pair show ?thesis by (simp add: get_nltk_builder_not_collected)
  next
    case (Inr acc)
    obtain sts fs chars where "acc = (sts, fs, chars)" by (cases acc)
    with Pair Inr show ?thesis by (simp add: get_nltk_builder_collected)
  qed
qed

lemma collect_unsupported:
  "l \<in> set languages \<Longrightarrow> map_of SUPPORTED_LANGUAGES l = None \<Longrightarrow>
   \<exists>k. fst (collect_languages env languages acc w) = Inl (KeyError k) \<and>
     ((\<forall>sw lang w' x. registered_functions w' x \<noteq> None \<longrightarrow>
          registered_functions (snd (generate_stop_word_filter env sw lang w')) x \<noteq> None) \<and>
      (\<forall>x\<in>set languages. x \<noteq> u ''en'' \<and> map_of SUPPORTED_LANGUAGES x \<noteq> None \<longrightarrow>
          registered_functions w (format (u ''stemmer-{}'') x) \<noteq> None) \<longrightarrow>
      k \<in> set languages \<and> map_of SUPPORTED_LANGUAGES k = None)"
proof (induction env languages acc w rule: collect_languages.induct)
  case (1 env acc w)
  then show ?case by simp
next
  case (2 env language rest all_stemmers all_stopwords_filters all_word_characters w)
  show ?case
  proof (cases "language = u ''en''")
    case True
    with "2.prems" have "l \<in> set rest" by (auto simp: en_supported)
    from "2.IH"(1)[OF True this "2.prems"(2)] True show ?thesis by auto
  next
    case False
    show ?thesis
    proof (cases "map_of SUPPORTED_LANGUAGES language")
      case None
      with False show ?thesis
        by (auto simp: get_stopwords_and_word_characters_def supported_language_def)
    next
      case (Some verbose)
      with "2.prems" have lrest: "l \<in> set rest" by auto
      obtain stopwords word_characters where
        gs: "get_stopwords_and_word_characters env language = Inr (stopwords, word_characters)"
        using Some by (simp add: get_stopwords_and_word_characters_def supported_language_def Let_def)
      show ?thesis
      proof (cases "registered_functions w (format (u ''stemmer-{}'') language)")
        case None
        with False gs Some show ?thesis by auto
      next
        case (Some st)
        obtain f w1 where g: "generate_stop_word_filter env stopwords language w = (f, w1)"
          by (cases "generate_stop_word_filter env stopwords language w")
        have w1: "w1 = snd (generate_stop_word_filter env stopwords language w)"
          using g by simp
        from "2.IH"(2)[OF False gs refl Some refl g[symmetric] lrest "2.prems"(2)]
        obtain k where k: "fst (collect_languages env rest
              (all_stemmers @ [st], all_stopwords_filters @ [f],
               all_word_characters \<union> word_characters) w1) = Inl (KeyError k)"
          "(\<forall>sw lang w' x. registered_functions w' x \<noteq> None \<longrightarrow>
              registered_functions (snd (generate_stop_word_filter env sw lang w')) x \<noteq> None) \<and>
           (\<forall>x\<in>set rest. x \<noteq> u ''en'' \<and> map_of SUPPORTED_LANGUAGES x \<noteq> None \<longrightarrow>
              registered_functions w1 (format (u ''stemmer-{}'') x) \<noteq> None) \<longrightarrow>
           k \<in> set rest \<and> map_of SUPPORTED_LANGUAGES k = None"
          by blast
        have step: "collect_languages env (language # rest)
              (all_stemmers, all_stopwords_filters, all_word_characters) w
            = collect_languages env rest
              (all_stemmers @ [st], all_stopwords_filters @ [f],
               all_word_characters \<union> word_characters) w1"
          using False gs Some g by simp
        show ?thesis
          unfolding step using k unfolding w1 by (intro exI[of _ k]) auto
      qed
    qed
  qed
qed










lemma collect_en_fr:
  "collect_languages example_env [u ''en'', u ''fr''] ([], [], {}) example_world
     = (Inr ([0, 2], [1, 4], {[92, 119], [108], [101], [97]}),
        snd (generate_stop_word_filter example_env {u ''le'', u ''la''} (u ''fr'')
               example_world))"
  by (simp add: example_env_def example_world_def u_def get_stopwords_and_word_characters_def
      supported_language_def SUPPORTED_LANGUAGES_def
      new_function_def word_characters_of_def Let_def insert_commute)

lemma collect_fr_en:
  "collect_languages example_env [u ''fr'', u ''en''] ([], [], {}) example_world
     = (Inr ([2, 0], [4, 1], {[92, 119], [108], [101], [97]}),
        snd (generate_stop_word_filter example_env {u ''le'', u ''la''} (u ''fr'')
               example_world))"
  by (simp add: example_env_def example_world_def u_def get_stopwords_and_word_characters_def
      supported_language_def SUPPORTED_LANGUAGES_def
      new_function_def word_characters_of_def Let_def insert_commute)

section \<open>The claims about the language bundler\<close>

text \<open>
  C7. The specification has the build fill the indexing pipeline with the merged
  trimmer, the stop-word filters and the stemmers, and the query pipeline with the
  stemmers. For the languages en and fr, with the stemmer of fr registered, the build
  raises \<open>AttributeError\<close> at its first \<open>builder.pipeline.add\<close> and returns no builder.
\<close>

theorem build_raises_at_first_add:
  "fst (get_nltk_builder example_env [u ''en'', u ''fr''] example_world)
     = Inl (AttributeError (u ''push''))"
  by (simp add: get_nltk_builder_collected[OF collect_en_fr])

text \<open>
  C8, as stated, fails: the label is not derived from the sorted list of languages.
  The requests fr, en and en, fr are the same set of languages; the first registers its
  trimmer as \<open>lunr-multi-trimmer-fr-en\<close> and leaves \<open>lunr-multi-trimmer-en-fr\<close>
  unregistered, the second registers its trimmer as \<open>lunr-multi-trimmer-en-fr\<close>.
\<close>

theorem trimmer_label_follows_request_order:
  "set [u ''fr'', u ''en''] = set [u ''en'', u ''fr'']
   \<and> registered_functions
        (snd (get_nltk_builder example_env [u ''fr'', u ''en''] example_world))
        (u ''lunr-multi-trimmer-fr-en'') = Some 5
   \<and> registered_functions
        (snd (get_nltk_builder example_env [u ''fr'', u ''en''] example_world))
        (u ''lunr-multi-trimmer-en-fr'') = None
   \<and> registered_functions
        (snd (get_nltk_builder example_env [u ''en'', u ''fr''] example_world))
        (u ''lunr-multi-trimmer-en-fr'') = Some 5"
  unfolding get_nltk_builder_collected[OF collect_en_fr]
    get_nltk_builder_collected[OF collect_fr_en]
  by (auto simp: format_trimmer register_function_def example_env_def
      new_function_def Let_def warning_def example_world_def u_def)

text \<open>
  C8, amended. When the loop over the languages succeeds, the word characters it
  collected are the union of the per-language sets; they are sorted and deduplicated
  into one string, from which a single trimmer is generated; and that trimmer is
  registered under \<open>lunr-multi-trimmer-\<close> followed by the requested languages joined
  with \<open>-\<close> in the order requested, so that two requests with the same list of
  languages are keyed to the same label.
\<close>

theorem merged_trimmer_registered:
  "collect_languages env languages ([], [], {}) w = (Inr (sts, fs, chars), w1) \<Longrightarrow>
     chars = (\<Union>l\<in>set languages. language_word_characters env l)
     \<and> sorted (sorted_list_of_set chars) \<and> distinct (sorted_list_of_set chars)
     \<and> set (sorted_list_of_set chars) = chars
     \<and> (let (multi_trimmer, w2) = generate_trimmer env (join [] (sorted_list_of_set chars)) w1;
            label = u ''lunr-multi-trimmer-'' @ join (u ''-'') languages;
            w' = snd (get_nltk_builder env languages w)
        in registered_functions w' label = Some multi_trimmer
           \<and> fn_label w' multi_trimmer = Some label)"
proof -
  assume c: "collect_languages env languages ([], [], {}) w = (Inr (sts, fs, chars), w1)"
  have chars: "chars = (\<Union>l\<in>set languages. language_word_characters env l)"
    using collect_characters[OF c] by simp
  have fin: "finite chars"
    unfolding chars by (simp add: finite_language_word_characters)
  show ?thesis
    using chars fin
    by (simp add: get_nltk_builder_collected[OF c] format_trimmer register_function_def
        Let_def warning_def merged_word_characters_def split: prod.splits)
qed

theorem merged_trimmer_registered_witness:
  "collect_languages example_env [u ''fr'', u ''en''] ([], [], {}) example_world
     = (Inr ([2, 0], [4, 1], {[92, 119], [108], [101], [97]}),
        snd (generate_stop_word_filter example_env {u ''le'', u ''la''} (u ''fr'')
               example_world))
   \<and> sorted_list_of_set {[92, 119], [108], [101], [97::nat]}
        = [[92, 119], [97], [101], [108]]
   \<and> registered_functions
        (snd (get_nltk_builder example_env [u ''fr'', u ''en''] example_world))
        (u ''lunr-multi-trimmer-fr-en'') = Some 5
   \<and> fn_label (snd (get_nltk_builder example_env [u ''fr'', u ''en''] example_world)) 5
        = Some (u ''lunr-multi-trimmer-fr-en'')"
proof -
  have s: "sorted_list_of_set {[92, 119], [108], [101], [97::nat]} = [[92, 119], [97], [101], [108]]"
    by code_simp
  have n: "fst (generate_trimmer example_env cs
      (snd (generate_stop_word_filter example_env {u ''le'', u ''la''} (u ''fr'') example_world))) = 5"
    for cs
    by (simp add: new_function_def example_world_def example_env_def)
  have j: "u ''lunr-multi-trimmer-'' @ join (u ''-'') [u ''fr'', u ''en'']
      = u ''lunr-multi-trimmer-fr-en''"
    by (simp add: u_def)
  from merged_trimmer_registered[OF collect_fr_en]
  have r: "registered_functions
        (snd (get_nltk_builder example_env [u ''fr'', u ''en''] example_world))
        (u ''lunr-multi-trimmer-fr-en'') = Some 5
     \<and> fn_label (snd (get_nltk_builder example_env [u ''fr'', u ''en''] example_world)) 5
        = Some (u ''lunr-multi-trimmer-fr-en'')"
    unfolding j Let_def case_prod_beta n by blast
  show ?thesis using collect_fr_en s r by blast
qed

text \<open>
  C9. When a requested language is not a key of \<open>SUPPORTED_LANGUAGES\<close>, the build fails
  with \<open>KeyError\<close> (the specification's UnsupportedLanguageError) inside the loop over
  the languages: the result and the state are those of the loop, so the builder, which
  is created after the loop, does not exist yet and the trimmer is not registered. When
  the stemmers of the supported languages requested are registered and the stop-word
  filter generator removes no registration, the key of the error is an unsupported
  language of the request.
\<close>

theorem unsupported_language_raises_in_loop:
  "l \<in> set languages \<Longrightarrow> map_of SUPPORTED_LANGUAGES l = None \<Longrightarrow>
     \<exists>k. fst (collect_languages env languages ([], [], {}) w) = Inl (KeyError k)
       \<and> get_nltk_builder env languages w
           = (Inl (KeyError k), snd (collect_languages env languages ([], [], {}) w))
       \<and> ((\<forall>sw lang w' x. registered_functions w' x \<noteq> None \<longrightarrow>
              registered_functions (snd (generate_stop_word_filter env sw lang w')) x \<noteq> None) \<and>
           (\<forall>x\<in>set languages. x \<noteq> u ''en'' \<and> map_of SUPPORTED_LANGUAGES x \<noteq> None \<longrightarrow>
              registered_functions w (format (u ''stemmer-{}'') x) \<noteq> None) \<longrightarrow>
            k \<in> set languages \<and> map_of SUPPORTED_LANGUAGES k = None)"
proof -
  assume l: "l \<in> set languages" "map_of SUPPORTED_LANGUAGES l = None"
  obtain res w1 where c: "collect_languages env languages ([], [], {}) w = (res, w1)"
    by (cases "collect_languages env languages ([], [], {}) w")
  from collect_unsupported[OF l, of env "([], [], {})" w] obtain k where
    k0: "fst (collect_languages env languages ([], [], {}) w) = Inl (KeyError k)" and
    k2: "(\<forall>sw lang w' x. registered_functions w' x \<noteq> None \<longrightarrow>
              registered_functions (snd (generate_stop_word_filter env sw lang w')) x \<noteq> None) \<and>
        (\<forall>x\<in>set languages. x \<noteq> u ''en'' \<and> map_of SUPPORTED_LANGUAGES x \<noteq> None \<longrightarrow>
              registered_functions w (format (u ''stemmer-{}'') x) \<noteq> None) \<longrightarrow>
            k \<in> set languages \<and> map_of SUPPORTED_LANGUAGES k = None"
    by blast
  have k1: "res = Inl (KeyError k)" using k0 c by simp
  have g: "get_nltk_builder env languages w = (Inl (KeyError k), w1)"
    using c k1 by (simp add: get_nltk_builder_not_collected)
  show ?thesis
    unfolding g c using k1 k2 by (intro exI[of _ k]) simp
qed

theorem unsupported_language_raises_in_loop_witness:
  "u ''zz'' \<in> set [u ''en'', u ''fr'', u ''zz'']
   \<and> map_of SUPPORTED_LANGUAGES (u ''zz'') = None
   \<and> fst (get_nltk_builder example_env [u ''en'', u ''fr'', u ''zz''] example_world)
       = Inl (KeyError (u ''zz''))
   \<and> registered_functions
       (snd (get_nltk_builder example_env [u ''en'', u ''fr'', u ''zz''] example_world))
       = registered_functions example_world
   \<and> log (snd (get_nltk_builder example_env [u ''en'', u ''fr'', u ''zz''] example_world)) = []"
proof -
  have a: "u ''zz'' \<in> set [u ''en'', u ''fr'', u ''zz'']" by simp
  have b: "map_of SUPPORTED_LANGUAGES (u ''zz'') = None"
    by (simp add: SUPPORTED_LANGUAGES_def u_def)
  have e: "collect_languages example_env [u ''en'', u ''fr'', u ''zz''] ([], [], {}) example_world
       = (Inl (KeyError (u ''zz'')),
          snd (generate_stop_word_filter example_env {u ''le'', u ''la''} (u ''fr'')
               example_world))"
    by (simp add: example_env_def example_world_def u_def
      get_stopwords_and_word_characters_def
      supported_language_def SUPPORTED_LANGUAGES_def
      new_function_def word_characters_of_def Let_def insert_commute)
  from unsupported_language_raises_in_loop[OF a b, of example_env example_world] show ?thesis
    unfolding e using a b by (auto simp: example_world_def example_env_def new_function_def)
qed



end
